theory Spec2Isabelle
  imports Main "HOL-Library.AList" "HOL-Library.Char_ord" "HOL-Library.List_Lexorder"
    "HOL-Library.Multiset" "HOL-Library.Sublist"
begin

section \<open>The TypeScript generator of scripts/apitypings/main.go\<close>

text \<open>
  The generator reads one type-checked Go package and prints TypeScript declarations.
  The package loader, \<^verbatim>\<open>go/types\<close>, \<^verbatim>\<open>reflect.StructTag\<close> and
  \<^verbatim>\<open>structtag.Parse\<close> are libraries: what the generator reads from them (the shape of
  a type, the text of \<^verbatim>\<open>String()\<close> where it has no simple form, the parsed tags of a
  field) is data of the model. Strings are byte strings.
\<close>

subsection \<open>Type descriptors (\<^verbatim>\<open>types.Type\<close>)\<close>

text \<open>
  \<^item> \<open>Basic numeric boolean byte name\<close>: \<^verbatim>\<open>Info()&IsNumeric > 0\<close>,
    \<^verbatim>\<open>Info()&IsBoolean > 0\<close>, \<^verbatim>\<open>Kind() == types.Byte\<close>, \<^verbatim>\<open>Name()\<close>.
  \<^item> \<open>Struct str fields\<close>: \<^verbatim>\<open>String()\<close> and the fields in declaration order.
  \<^item> \<open>Named str name underlying\<close>: \<^verbatim>\<open>String()\<close> (package-qualified),
    \<^verbatim>\<open>Obj().Name()\<close>, \<^verbatim>\<open>Underlying()\<close>.
  \<^item> \<open>Interface str empty embeddeds\<close>: \<^verbatim>\<open>String()\<close>, \<^verbatim>\<open>Empty()\<close>, the embedded types.
  \<^item> \<open>TypeParam name constraint underlying\<close>: \<^verbatim>\<open>Obj().Name()\<close>,
    \<^verbatim>\<open>Constraint().String()\<close>, \<^verbatim>\<open>Underlying()\<close>.
  \<^item> \<open>Union str terms\<close>: \<^verbatim>\<open>String()\<close> and the type of each term.
  \<^item> \<open>Signature str\<close>, \<open>Chan str\<close>: function and channel types, with \<^verbatim>\<open>String()\<close>.
  \<^item> \<open>Field name type embedded pkg json tags\<close>: \<^verbatim>\<open>Name()\<close>, \<^verbatim>\<open>Type()\<close>,
    \<^verbatim>\<open>Embedded()\<close>, \<^verbatim>\<open>Pkg().Name()\<close>, the value of
    \<^verbatim>\<open>reflect.StructTag(tag).Get("json")\<close>, and the result of \<^verbatim>\<open>structtag.Parse(tag)\<close>
    (\<open>None\<close> when it fails).
  A descriptor is a finite tree: a reference to a named type carries the underlying type
  as far as the generator looks into it.
\<close>

datatype tag = Tag (Key: string) (TagName: string) (Options: "string list")

datatype gotype =
    Basic bool bool bool string
  | Struct string "field list"
  | Map gotype gotype
  | Slice gotype
  | Array nat gotype
  | Named string string gotype
  | Pointer gotype
  | Interface string bool "gotype list"
  | TypeParam string string gotype
  | Union string "gotype list"
  | Signature string
  | Chan string
and field =
    Field (fName: string) (fType: gotype) (fEmbedded: bool) (fPkgName: string)
          (fJson: string) (fTags: "tag list option")

fun decimal :: "nat \<Rightarrow> string" where
  "decimal n =
     (if n < 10 then [char_of (48 + n)]
      else decimal (n div 10) @ [char_of (48 + n mod 10)])"

declare decimal.simps [simp del]

text \<open>\<^verbatim>\<open>String()\<close> of a type.\<close>

fun type_string :: "gotype \<Rightarrow> string" where
  "type_string (Basic _ _ _ name) = name"
| "type_string (Struct s _) = s"
| "type_string (Map k v) = ''map['' @ type_string k @ '']'' @ type_string v"
| "type_string (Slice e) = ''[]'' @ type_string e"
| "type_string (Array n e) = ''['' @ decimal n @ '']'' @ type_string e"
| "type_string (Named s _ _) = s"
| "type_string (Pointer e) = ''*'' @ type_string e"
| "type_string (Interface s _ _) = s"
| "type_string (TypeParam name _ _) = name"
| "type_string (Union s _) = s"
| "type_string (Signature s) = s"
| "type_string (Chan s) = s"

fun is_Interface :: "gotype \<Rightarrow> bool" where
  "is_Interface (Interface _ _ _) = True"
| "is_Interface _ = False"

fun is_Struct :: "gotype \<Rightarrow> bool" where
  "is_Struct (Struct _ _) = True"
| "is_Struct _ = False"

subsection \<open>Objects of the package scope, and the package\<close>

text \<open>
  An object has its \<^verbatim>\<open>Name()\<close>, its \<^verbatim>\<open>Type()\<close> (\<open>None\<close> for nil), its kind, and the
  base name of the file it is declared in. A constant carries \<^verbatim>\<open>Val().String()\<close>.
\<close>

datatype obj_kind = TypeName | Var | Const string | Func | OtherObject

record object =
  obj_name :: string
  obj_type :: "gotype option"
  obj_kind :: obj_kind
  obj_file :: string

text \<open>
  \<open>Syntax\<close>: for each file, for each comment group, the text of each comment.
  \<open>Scope\<close>: the objects of the package scope.
\<close>

record package =
  Syntax :: "string list list list"
  Scope :: "object list"

definition Lookup :: "package \<Rightarrow> string \<Rightarrow> object option" where
  "Lookup g n = find (\<lambda>obj. obj_name obj = n) (Scope g)"

text \<open>\<^verbatim>\<open>Scope().Names()\<close>: the names of the scope, each once, sorted.\<close>

definition Names :: "package \<Rightarrow> string list" where
  "Names g = sort (remdups (map obj_name (Scope g)))"

subsection \<open>Errors\<close>

text \<open>
  One constructor for each \<^verbatim>\<open>xerrors.Errorf\<close>, \<^verbatim>\<open>xerrors.New\<close> and \<^verbatim>\<open>panic\<close> of the
  source, with the arguments of its format string; \<^verbatim>\<open>%w\<close> is the wrapped error.
  \<open>ErrLoadPackage\<close> carries the message of the loader's error, and
  \<open>PanicInvalidStructTags\<close> the name of the object, for \<^verbatim>\<open>obj.String()\<close>.
\<close>

datatype error =
    ErrParsePackage string error
  | ErrGenerate string error
  | ErrMapGenerate string error
  | ErrGenerateUnion string error
  | ErrUnsupportedNamedType string
  | ErrUnion string string error
  | ErrTypescriptType error
  | ErrMapKey error
  | ErrArray error
  | ErrNamedUnderlying error
  | ErrPointer error
  | ErrOnlyEmptyInterface
  | ErrTypeParamMustBeInterface
  | ErrUnknownType string
  | ErrLoadPackage string
  | ErrExpectedOnePackage nat
  | PanicTypeNameNotNamed
  | PanicInvalidStructTags string

subsection \<open>The Type Mapper (\<^verbatim>\<open>typescriptType\<close>)\<close>

record TypescriptType =
  GenericMapping :: string
  ValueType :: string
  AboveTypeLine :: string
  Optional :: bool

definition indent :: string where
  "indent = ''  ''"

definition indentedComment :: "string \<Rightarrow> string" where
  "indentedComment comment = indent @ ''// '' @ comment"

text \<open>
  \<^verbatim>\<open>%q\<close>: the string in double quotes, with a double quote and a backslash escaped.
  Type strings, identifiers and paths hold no control characters.
\<close>

fun escape :: "string \<Rightarrow> string" where
  "escape [] = []"
| "escape (c # cs) =
     (if c = CHR 0x22 \<or> c = CHR 0x5C then CHR 0x5C # c # escape cs else c # escape cs)"

definition quote :: "string \<Rightarrow> string" where
  "quote s = CHR 0x22 # escape s @ [CHR 0x22]"

definition justValue :: "string \<Rightarrow> TypescriptType" where
  "justValue v = \<lparr>GenericMapping = '''', ValueType = v, AboveTypeLine = '''', Optional = False\<rparr>"

text \<open>\<^verbatim>\<open>strings.TrimPrefix\<close>.\<close>

definition TrimPrefix :: "string \<Rightarrow> string \<Rightarrow> string" where
  "TrimPrefix s p = (if prefix p s then drop (length p) s else s)"

fun typescriptType :: "package \<Rightarrow> gotype \<Rightarrow> error + TypescriptType" where
  "typescriptType g (Basic numeric boolean byte name) =
     (if numeric then Inr (justValue ''number'')
      else if boolean then Inr (justValue ''boolean'')
      else if byte then
        Inr ((justValue ''number'')\<lparr>AboveTypeLine := indentedComment ''This is a byte in golang''\<rparr>)
      else Inr (justValue name))"
| "typescriptType g (Struct s fs) =
     Inr ((justValue ''any'')\<lparr>AboveTypeLine :=
        indentedComment ''Embedded anonymous struct, please fix by naming it'' @ [CHR 0x0A] @
        indentedComment ''eslint-disable-next-line @typescript-eslint/no-explicit-any''\<rparr>)"
| "typescriptType g (Map k v) =
     (case typescriptType g k of
        Inl err \<Rightarrow> Inl (ErrMapKey err)
      | Inr keyType \<Rightarrow>
          (case typescriptType g v of
             Inl err \<Rightarrow> Inl (ErrMapKey err)
           | Inr valueType \<Rightarrow>
               (let aboveTypeLine = AboveTypeLine keyType;
                    aboveTypeLine =
                      (if aboveTypeLine \<noteq> '''' \<and> AboveTypeLine valueType \<noteq> ''''
                       then aboveTypeLine @ [CHR 0x0A] else aboveTypeLine);
                    aboveTypeLine = aboveTypeLine @ AboveTypeLine valueType
                in Inr ((justValue (''Record<'' @ ValueType keyType @ '', '' @ ValueType valueType @ ''>''))
                          \<lparr>AboveTypeLine := aboveTypeLine\<rparr>))))"
| "typescriptType g (Slice e) =
     (if type_string e = ''byte'' then Inr (justValue ''string'')
      else (case typescriptType g e of
              Inl err \<Rightarrow> Inl (ErrArray err)
            | Inr underlying \<Rightarrow>
                Inr ((justValue (ValueType underlying @ ''[]''))
                       \<lparr>AboveTypeLine := AboveTypeLine underlying\<rparr>)))"
| "typescriptType g (Array n e) =
     (if type_string e = ''byte'' then Inr (justValue ''string'')
      else (case typescriptType g e of
              Inl err \<Rightarrow> Inl (ErrArray err)
            | Inr underlying \<Rightarrow>
                Inr ((justValue (ValueType underlying @ ''[]''))
                       \<lparr>AboveTypeLine := AboveTypeLine underlying\<rparr>)))"
| "typescriptType g (Named s name u) =
     (if s = ''net/url.URL'' then Inr (justValue ''string'')
      else if s = ''time.Time'' then Inr (justValue ''string'')
      else if s = ''database/sql.NullTime'' then Inr ((justValue ''string'')\<lparr>Optional := True\<rparr>)
      else if s = ''github.com/coder/coder/codersdk.NullTime''
        then Inr ((justValue ''string'')\<lparr>Optional := True\<rparr>)
      else if s = ''github.com/google/uuid.NullUUID''
        then Inr ((justValue ''string'')\<lparr>Optional := True\<rparr>)
      else if s = ''github.com/google/uuid.UUID'' then Inr (justValue ''string'')
      else if Lookup g name \<noteq> None then Inr (justValue name)
      else if is_Struct u then
        Inr ((justValue ''any'')\<lparr>AboveTypeLine :=
           indentedComment (''Named type '' @ quote s @ '' unknown, using '' @
                            [CHR 0x22] @ ''any'' @ [CHR 0x22]) @ [CHR 0x0A] @
           indentedComment ''eslint-disable-next-line @typescript-eslint/no-explicit-any''\<rparr>)
      else (case typescriptType g u of
              Inl err \<Rightarrow> Inl (ErrNamedUnderlying err)
            | Inr ts \<Rightarrow>
                Inr (ts\<lparr>AboveTypeLine := indentedComment
                       (''This is likely an enum in an external package ('' @ quote s @ '')'')\<rparr>)))"
| "typescriptType g (Pointer e) =
     (case typescriptType g e of
        Inl err \<Rightarrow> Inl (ErrPointer err)
      | Inr resp \<Rightarrow> Inr (resp\<lparr>Optional := True\<rparr>))"
| "typescriptType g (Interface s isEmpty embeddeds) =
     (if isEmpty then
        Inr ((justValue ''any'')\<lparr>AboveTypeLine := indentedComment ''eslint-disable-next-line''\<rparr>)
      else Inl ErrOnlyEmptyInterface)"
| "typescriptType g (TypeParam name constraint u) =
     (if \<not> is_Interface u then Inl ErrTypeParamMustBeInterface
      else Inr \<lparr>GenericMapping = name,
                ValueType = TrimPrefix constraint ''github.com/coder/coder/codersdk.'',
                AboveTypeLine = '''', Optional = False\<rparr>)"
| "typescriptType g (Union s terms) = Inl (ErrUnknownType s)"
| "typescriptType g (Signature s) = Inl (ErrUnknownType s)"
| "typescriptType g (Chan s) = Inl (ErrUnknownType s)"

subsection \<open>Strings\<close>

text \<open>\<^verbatim>\<open>strings.Join\<close>, \<^verbatim>\<open>strings.Split(s, ",")\<close>, \<^verbatim>\<open>strings.TrimSpace\<close> (on the
  white space of ASCII) and \<^verbatim>\<open>strings.TrimRight(s, "\n")\<close>.\<close>

fun Join :: "string list \<Rightarrow> string \<Rightarrow> string" where
  "Join [] sep = []"
| "Join [x] sep = x"
| "Join (x # y # ys) sep = x @ sep @ Join (y # ys) sep"

fun Split :: "string \<Rightarrow> string list" where
  "Split [] = [[]]"
| "Split (c # cs) =
     (if c = CHR '','' then [] # Split cs
      else (case Split cs of [] \<Rightarrow> [[c]] | p # ps \<Rightarrow> (c # p) # ps))"

definition isSpace :: "char \<Rightarrow> bool" where
  "isSpace c \<longleftrightarrow> c \<in> set [CHR 0x09, CHR 0x0A, CHR 0x0B, CHR 0x0C, CHR 0x0D, CHR 0x20]"

definition TrimSpace :: "string \<Rightarrow> string" where
  "TrimSpace s = rev (dropWhile isSpace (rev (dropWhile isSpace s)))"

definition TrimRight :: "string \<Rightarrow> string" where
  "TrimRight s = rev (dropWhile (\<lambda>c. c = CHR 0x0A) (rev s))"

subsection \<open>The Output Assembler (\<^verbatim>\<open>TypescriptTypes.String\<close>)\<close>

text \<open>
  A Go map from strings is an association list read with \<open>map_of\<close> and written with
  \<open>AList.update\<close>; \<open>keys\<close> is what \<^verbatim>\<open>range\<close> yields, each key once, and \<open>index\<close> is
  \<^verbatim>\<open>m[k]\<close>, the empty string for a missing key.
\<close>

type_synonym 'v gomap = "(string \<times> 'v) list"

definition keys :: "'v gomap \<Rightarrow> string list" where
  "keys m = remdups (map fst m)"

definition index :: "string gomap \<Rightarrow> string \<Rightarrow> string" where
  "index m k = (case map_of m k of None \<Rightarrow> '''' | Some v \<Rightarrow> v)"

record TypescriptTypes =
  Types :: "string gomap"
  Enums :: "string gomap"
  Generics :: "string gomap"

definition banner :: string where
  "banner = ''// Code generated by '' @ [CHR 0x27] @ ''make coder/scripts/apitypings/main.go'' @
            [CHR 0x27] @ ''. DO NOT EDIT.'' @ [CHR 0x0A, CHR 0x0A]"

definition writeBlocks :: "string gomap \<Rightarrow> string list \<Rightarrow> string" where
  "writeBlocks m ks = concat (map (\<lambda>k. index m k @ [CHR 0x0A]) ks)"

definition String :: "TypescriptTypes \<Rightarrow> string" where
  "String t =
     (let sortedTypes = sort (keys (Types t));
          sortedEnums = sort (keys (Enums t));
          sortedGenerics = sort (keys (Generics t))
      in TrimRight (banner @ writeBlocks (Types t) sortedTypes @
                    writeBlocks (Enums t) sortedEnums @
                    writeBlocks (Generics t) sortedGenerics))"

subsection \<open>\<^verbatim>\<open>posLine\<close> and the Union Builder (\<^verbatim>\<open>buildUnion\<close>)\<close>

text \<open>\<open>obj_file\<close> is \<^verbatim>\<open>filepath.Base(file.Name())\<close>, a plain file name.\<close>

definition posLine :: "object \<Rightarrow> string" where
  "posLine obj = ''// From codersdk/'' @ obj_file obj @ [CHR 0x0A]"

text \<open>The loop over the terms, with \<open>allTypes\<close> and \<open>optional\<close>.\<close>

fun unionTerms ::
  "package \<Rightarrow> object \<Rightarrow> string \<Rightarrow> gotype list \<Rightarrow> string list \<times> bool \<Rightarrow>
   error + (string list \<times> bool)" where
  "unionTerms g obj ustr [] acc = Inr acc"
| "unionTerms g obj ustr (term # terms) (allTypes, optional) =
     (case typescriptType g term of
        Inl err \<Rightarrow> Inl (ErrUnion ustr (obj_name obj) err)
      | Inr scriptType \<Rightarrow>
          unionTerms g obj ustr terms
            (allTypes @ [ValueType scriptType], optional \<or> Optional scriptType))"

definition buildUnion :: "package \<Rightarrow> object \<Rightarrow> string \<Rightarrow> gotype list \<Rightarrow> error + string" where
  "buildUnion g obj ustr terms =
     (case unionTerms g obj ustr terms ([], False) of
        Inl err \<Rightarrow> Inl err
      | Inr (allTypes, optional) \<Rightarrow>
          (let qMark = (if optional then ''?'' else '''')
           in Inr (posLine obj @ ''export type '' @ obj_name obj @ qMark @ '' = '' @
                   Join allTypes '' | '' @ [CHR 0x0A])))"

subsection \<open>The Struct Renderer (\<^verbatim>\<open>buildStruct\<close>)\<close>

record structTemplateState =
  PosLine :: string
  Name :: string
  Fields :: "string list"
  StateGenerics :: "string list"
  Extends :: string
  AboveLine :: string

text \<open>
  \<^verbatim>\<open>structTemplate\<close>, executed on a state. \<open>StateGenerics\<close> is the field
  \<^verbatim>\<open>Generics\<close> of the state. The template is a constant that parses, and executing it on
  a state of strings does not fail, so the two errors of the template are no case here.
\<close>

definition structTemplate :: "structTemplateState \<Rightarrow> string" where
  "structTemplate state =
     PosLine state @
     (if AboveLine state \<noteq> '''' then AboveLine state @ [CHR 0x0A] else '''') @
     ''export interface '' @ Name state @
     (if StateGenerics state \<noteq> [] then ''<'' @ Join (StateGenerics state) '', '' @ ''>'' else '''') @
     (if Extends state \<noteq> '''' then '' extends '' @ Extends state else '''') @
     '' {'' @ [CHR 0x0A] @ Join (Fields state) [CHR 0x0A] @ [CHR 0x0A] @ ''}'' @ [CHR 0x0A]"

text \<open>\<^verbatim>\<open>tags.Get(key)\<close>: the first tag of that key, \<open>None\<close> for its error.\<close>

definition Get :: "tag list \<Rightarrow> string \<Rightarrow> tag option" where
  "Get tags key = find (\<lambda>t. Key t = key) tags"

text \<open>\<^verbatim>\<open>len(tag.Options) > 0 && tag.Options[0] == opt\<close>.\<close>

definition firstOption :: "tag \<Rightarrow> string \<Rightarrow> bool" where
  "firstOption t opt = (case Options t of [] \<Rightarrow> False | x # xs \<Rightarrow> x = opt)"

text \<open>The condition of the first loop, which fills \<open>extendedFields\<close> and \<open>extends\<close>.\<close>

definition isExtended :: "field \<Rightarrow> bool" where
  "isExtended f \<longleftrightarrow> fEmbedded f \<and> fJson f = '''' \<and> fPkgName f = ''codersdk''"

text \<open>
  The first half of the body of the second loop, up to the tags of the field:
  \<open>Inr None\<close> is \<^verbatim>\<open>continue\<close>, and \<open>Inr (Some (jsonName, jsonOptional, tsType))\<close> goes on
  to the second half.
\<close>

definition fieldEntry ::
  "package \<Rightarrow> object \<Rightarrow> field \<Rightarrow> error + (string \<times> bool \<times> TypescriptType) option" where
  "fieldEntry g obj f =
     (case fTags f of
        None \<Rightarrow> Inl (PanicInvalidStructTags (obj_name obj))
      | Some tags \<Rightarrow>
          (let jsonTag = Get tags ''json'' in
           if (case jsonTag of None \<Rightarrow> False | Some t \<Rightarrow> TagName t = ''-'') then Inr None
           else
             (let jsonName = (case jsonTag of None \<Rightarrow> '''' | Some t \<Rightarrow> TagName t);
                  jsonOptional =
                    (case jsonTag of None \<Rightarrow> False | Some t \<Rightarrow> firstOption t ''omitempty'');
                  jsonName = (if jsonName = '''' then fName f else jsonName)
              in case typescriptType g (fType f) of
                   Inl err \<Rightarrow> Inl (ErrTypescriptType err)
                 | Inr tsType \<Rightarrow>
                     (case Get tags ''typescript'' of
                        None \<Rightarrow> Inr (Some (jsonName, jsonOptional, tsType))
                      | Some typescriptTag \<Rightarrow>
                          if TagName typescriptTag = ''-'' then Inr None
                          else
                            (let tsType =
                                   (if TagName typescriptTag \<noteq> ''''
                                    then justValue (TagName typescriptTag) else tsType);
                                 tsType =
                                   (if firstOption typescriptTag ''notnull''
                                    then tsType\<lparr>Optional := False\<rparr> else tsType)
                             in Inr (Some (jsonName, jsonOptional, tsType)))))))"

text \<open>The line of a field.\<close>

definition fieldLine :: "string \<times> bool \<times> TypescriptType \<Rightarrow> string" where
  "fieldLine e =
     (case e of (jsonName, jsonOptional, tsType) \<Rightarrow>
        (let optional = (if jsonOptional \<or> Optional tsType then ''?'' else '''');
             valueType =
               (if GenericMapping tsType \<noteq> '''' then GenericMapping tsType else ValueType tsType)
         in indent @ ''readonly '' @ jsonName @ optional @ '': '' @ valueType))"

text \<open>The second half of the body: the state and \<open>genericsUsed\<close> after the field.\<close>

definition addField ::
  "string \<times> bool \<times> TypescriptType \<Rightarrow> structTemplateState \<times> (string \<rightharpoonup> string) \<Rightarrow>
   structTemplateState \<times> (string \<rightharpoonup> string)" where
  "addField e sg =
     (case e of (jsonName, jsonOptional, tsType) \<Rightarrow>
      case sg of (state, genericsUsed) \<Rightarrow>
        (let state =
               (if AboveTypeLine tsType \<noteq> ''''
                then state\<lparr>AboveLine := AboveTypeLine tsType\<rparr> else state);
             state =
               (if GenericMapping tsType \<noteq> '''' \<and> genericsUsed (GenericMapping tsType) = None
                then state\<lparr>StateGenerics := StateGenerics state @
                       [GenericMapping tsType @ '' extends '' @ ValueType tsType]\<rparr>
                else state);
             genericsUsed =
               (if GenericMapping tsType \<noteq> ''''
                then genericsUsed(GenericMapping tsType \<mapsto> ValueType tsType) else genericsUsed)
         in (state\<lparr>Fields := Fields state @ [fieldLine e]\<rparr>, genericsUsed)))"

text \<open>The second loop, over the fields that are not extended.\<close>

fun buildFields ::
  "package \<Rightarrow> object \<Rightarrow> field list \<Rightarrow> structTemplateState \<times> (string \<rightharpoonup> string) \<Rightarrow>
   error + structTemplateState \<times> (string \<rightharpoonup> string)" where
  "buildFields g obj [] sg = Inr sg"
| "buildFields g obj (f # fs) sg =
     (if isExtended f then buildFields g obj fs sg
      else (case fieldEntry g obj f of
              Inl err \<Rightarrow> Inl err
            | Inr None \<Rightarrow> buildFields g obj fs sg
            | Inr (Some e) \<Rightarrow> buildFields g obj fs (addField e sg)))"

definition initialState :: "object \<Rightarrow> field list \<Rightarrow> structTemplateState" where
  "initialState obj fs =
     \<lparr>PosLine = posLine obj, Name = obj_name obj, Fields = [], StateGenerics = [],
      Extends = Join (map fName (filter isExtended fs)) '', '', AboveLine = ''''\<rparr>"

definition buildStruct :: "package \<Rightarrow> object \<Rightarrow> field list \<Rightarrow> error + string" where
  "buildStruct g obj fs =
     (case buildFields g obj fs (initialState obj fs, Map.empty) of
        Inl err \<Rightarrow> Inl err
      | Inr (state, genericsUsed) \<Rightarrow> Inr (structTemplate state))"

subsection \<open>The ignore directive\<close>

text \<open>
  \<open>submatch text\<close> is the group \<^verbatim>\<open>ignored_types\<close> of the leftmost match of
  \<^verbatim>\<open>@typescript-ignore[:]?(?P<ignored_types>.*)\<close> in \<open>text\<close>, \<open>None\<close> when nothing matches:
  the match starts at the first \<^verbatim>\<open>@typescript-ignore\<close>, takes a colon when one follows,
  and the group runs to the end of the line.
\<close>

definition afterColon :: "string \<Rightarrow> string" where
  "afterColon s = (case s of [] \<Rightarrow> [] | c # cs \<Rightarrow> if c = CHR '':'' then cs else c # cs)"

fun submatch :: "string \<Rightarrow> string option" where
  "submatch [] = None"
| "submatch (c # cs) =
     (if prefix ''@typescript-ignore'' (c # cs)
      then Some (takeWhile (\<lambda>x. x \<noteq> CHR 0x0A) (afterColon (drop 18 (c # cs))))
      else submatch cs)"

definition ignoredInLine :: "string \<Rightarrow> string list" where
  "ignoredInLine text =
     (case submatch text of
        None \<Rightarrow> []
      | Some m \<Rightarrow> if m \<noteq> '''' then map TrimSpace (Split m) else [])"

text \<open>The keys of \<open>ignoredTypes\<close> after the three loops over the comments.\<close>

definition ignoredTypes :: "package \<Rightarrow> string list" where
  "ignoredTypes g = concat (map ignoredInLine (concat (concat (Syntax g))))"

subsection \<open>The Declaration Classifier (\<^verbatim>\<open>generateAll\<close>)\<close>

text \<open>
  The four maps of the loop over the scope. \<open>enumConsts\<close> keeps \<^verbatim>\<open>Val().String()\<close> of
  each constant, which is all that is read of it.
\<close>

record collected =
  structs :: "string gomap"
  generics :: "string gomap"
  enums :: "object gomap"
  enumConsts :: "string list gomap"

definition consts_of :: "string list gomap \<Rightarrow> string \<Rightarrow> string list" where
  "consts_of m k = (case map_of m k of None \<Rightarrow> [] | Some vs \<Rightarrow> vs)"

text \<open>The switch on \<^verbatim>\<open>named.Underlying()\<close> of a type name.\<close>

fun generateTypeName ::
  "package \<Rightarrow> object \<Rightarrow> gotype \<Rightarrow> collected \<Rightarrow> error + collected" where
  "generateTypeName g obj (Struct s fs) st =
     (case buildStruct g obj fs of
        Inl err \<Rightarrow> Inl (ErrGenerate (obj_name obj) err)
      | Inr codeBlock \<Rightarrow>
          Inr (st\<lparr>structs := AList.update (obj_name obj) codeBlock (structs st)\<rparr>))"
| "generateTypeName g obj (Basic numeric boolean byte name) st =
     Inr (st\<lparr>enums := AList.update (obj_name obj) obj (enums st)\<rparr>)"
| "generateTypeName g obj (Map k v) st =
     (case typescriptType g (Map k v) of
        Inl err \<Rightarrow> Inl (ErrMapGenerate (obj_name obj) err)
      | Inr ts \<Rightarrow>
          (let str = posLine obj @
                 (if AboveTypeLine ts \<noteq> '''' then AboveTypeLine ts @ [CHR 0x0A] else '''') @
                 ''export type '' @ obj_name obj @ '' = '' @ ValueType ts @ [CHR 0x0A]
           in Inr (st\<lparr>structs := AList.update (obj_name obj) str (structs st)\<rparr>)))"
| "generateTypeName g obj (Array n e) st = Inr st"
| "generateTypeName g obj (Slice e) st = Inr st"
| "generateTypeName g obj (Interface s isEmpty [e]) st =
     (let union = (case e of Union ustr terms \<Rightarrow> (ustr, terms)
                   | _ \<Rightarrow> (''~'' @ type_string e, [e]))
      in case buildUnion g obj (fst union) (snd union) of
           Inl err \<Rightarrow> Inl (ErrGenerateUnion (obj_name obj) err)
         | Inr block \<Rightarrow>
             Inr (st\<lparr>generics := AList.update (obj_name obj) block (generics st)\<rparr>))"
| "generateTypeName g obj (Interface s isEmpty embeddeds) st = Inr st"
| "generateTypeName g obj (Signature s) st = Inr st"
| "generateTypeName g obj underNamed st =
     Inl (ErrUnsupportedNamedType (type_string underNamed))"

text \<open>
  The body of the loop for the name \<open>n\<close>. The \<^verbatim>\<open>default\<close> case of the switch on the
  object prints its name to standard output, which is not part of the result.
\<close>

definition generateName ::
  "package \<Rightarrow> string list \<Rightarrow> string \<Rightarrow> collected \<Rightarrow> error + collected" where
  "generateName g ignored n st =
     (case Lookup g n of
        None \<Rightarrow> Inr st
      | Some obj \<Rightarrow>
          (case obj_type obj of
             None \<Rightarrow> Inr st
           | Some ty \<Rightarrow>
               if obj_name obj \<in> set ignored then Inr st
               else
                 (case obj_kind obj of
                    TypeName \<Rightarrow>
                      (case ty of
                         Named s nm underNamed \<Rightarrow> generateTypeName g obj underNamed st
                       | _ \<Rightarrow> Inl PanicTypeNameNotNamed)
                  | Var \<Rightarrow> Inr st
                  | Const val \<Rightarrow>
                      (case ty of
                         Named s nm u \<Rightarrow>
                           Inr (st\<lparr>enumConsts :=
                                  AList.update nm (consts_of (enumConsts st) nm @ [val])
                                    (enumConsts st)\<rparr>)
                       | _ \<Rightarrow> Inr st)
                  | Func \<Rightarrow> Inr st
                  | OtherObject \<Rightarrow> Inr st)))"

fun generateNames ::
  "package \<Rightarrow> string list \<Rightarrow> string list \<Rightarrow> collected \<Rightarrow> error + collected" where
  "generateNames g ignored [] st = Inr st"
| "generateNames g ignored (n # ns) st =
     (case generateName g ignored n st of
        Inl err \<Rightarrow> Inl err
      | Inr st' \<Rightarrow> generateNames g ignored ns st')"

text \<open>The block of the enum \<open>name\<close>, declared by the object \<open>v\<close>.\<close>

definition enumBlock :: "string list gomap \<Rightarrow> string \<Rightarrow> object \<Rightarrow> string" where
  "enumBlock consts name v =
     (let values = sort (consts_of consts name)
      in posLine v @ ''export type '' @ name @ '' = '' @ Join values '' | '' @ [CHR 0x0A])"

definition enumCodeBlocks :: "collected \<Rightarrow> string gomap" where
  "enumCodeBlocks st = map (\<lambda>(name, v). (name, enumBlock (enumConsts st) name v)) (enums st)"

definition generateAll :: "package \<Rightarrow> error + TypescriptTypes" where
  "generateAll g =
     (case generateNames g (ignoredTypes g) (Names g)
             \<lparr>structs = [], generics = [], enums = [], enumConsts = []\<rparr> of
        Inl err \<Rightarrow> Inl err
      | Inr st \<Rightarrow>
          Inr \<lparr>Types = structs st, Enums = enumCodeBlocks st, Generics = generics st\<rparr>)"

subsection \<open>\<^verbatim>\<open>GenerateFromDirectory\<close>\<close>

text \<open>
  \<open>loaded\<close> is what \<^verbatim>\<open>packages.Load\<close> returns for the directory: the message of its
  error, or the packages.
\<close>

definition parsePackage :: "string + package list \<Rightarrow> error + package" where
  "parsePackage loaded =
     (case loaded of
        Inl msg \<Rightarrow> Inl (ErrLoadPackage msg)
      | Inr pkgs \<Rightarrow>
          (case pkgs of [g] \<Rightarrow> Inr g | _ \<Rightarrow> Inl (ErrExpectedOnePackage (length pkgs))))"

definition GenerateFromDirectory ::
  "string \<Rightarrow> string + package list \<Rightarrow> error + TypescriptTypes" where
  "GenerateFromDirectory directory loaded =
     (case parsePackage loaded of
        Inl err \<Rightarrow> Inl (ErrParsePackage directory err)
      | Inr g \<Rightarrow>
          (case generateAll g of
             Inl err \<Rightarrow> Inl (ErrParsePackage directory err)
           | Inr codeBlocks \<Rightarrow> Inr codeBlocks))"

text \<open>The message of an error (\<^verbatim>\<open>Error()\<close>), and the message of a panic.\<close>

fun Error :: "error \<Rightarrow> string" where
  "Error (ErrParsePackage d e) = ''parse package '' @ quote d @ '': '' @ Error e"
| "Error (ErrGenerate n e) = ''generate '' @ quote n @ '': '' @ Error e"
| "Error (ErrMapGenerate n e) = ''(map) generate '' @ quote n @ '': '' @ Error e"
| "Error (ErrGenerateUnion n e) = ''generate union '' @ quote n @ '': '' @ Error e"
| "Error (ErrUnsupportedNamedType s) = ''unsupported named type '' @ quote s"
| "Error (ErrUnion u n e) =
     ''union '' @ quote u @ '' for '' @ quote n @ '' failed to get type: '' @ Error e"
| "Error (ErrTypescriptType e) = ''typescript type: '' @ Error e"
| "Error (ErrMapKey e) = ''map key: '' @ Error e"
| "Error (ErrArray e) = ''array: '' @ Error e"
| "Error (ErrNamedUnderlying e) = ''named underlying: '' @ Error e"
| "Error (ErrPointer e) = ''pointer: '' @ Error e"
| "Error ErrOnlyEmptyInterface = ''only empty interface types are supported''"
| "Error ErrTypeParamMustBeInterface = ''type param must be an interface''"
| "Error (ErrUnknownType s) = ''unknown type: '' @ s"
| "Error (ErrLoadPackage msg) = ''load package: '' @ msg"
| "Error (ErrExpectedOnePackage n) = ''expected 1 package, found '' @ decimal n"
| "Error PanicTypeNameNotNamed = ''all typename should be named types''"
| "Error (PanicInvalidStructTags n) = ''invalid struct tags on type '' @ n"

subsection \<open>Notions used to state the properties\<close>

text \<open>
  The types nested in a descriptor that the Type Mapper can reach: the key and the value of
  a map, the element of a slice or an array, the underlying type of a named type, the
  pointee of a pointer.
\<close>

fun parts :: "gotype \<Rightarrow> gotype list" where
  "parts (Map k v) = Map k v # parts k @ parts v"
| "parts (Slice e) = Slice e # parts e"
| "parts (Array n e) = Array n e # parts e"
| "parts (Named s name u) = Named s name u # parts u"
| "parts (Pointer e) = Pointer e # parts e"
| "parts ty = [ty]"

text \<open>The shapes for which the Type Mapper has no result.\<close>

fun unsupported :: "gotype \<Rightarrow> bool" where
  "unsupported (Interface s isEmpty embeddeds) = (\<not> isEmpty)"
| "unsupported (TypeParam name constraint u) = (\<not> is_Interface u)"
| "unsupported (Union s terms) = True"
| "unsupported (Signature s) = True"
| "unsupported (Chan s) = True"
| "unsupported ty = False"

text \<open>What the tags of a field say: omitempty as the first json option, a type name or
  notnull in the typescript tag, and the name \<^verbatim>\<open>-\<close> in either tag.\<close>

definition jsonOmitempty :: "tag list \<Rightarrow> bool" where
  "jsonOmitempty tags =
     (case Get tags ''json'' of None \<Rightarrow> False | Some t \<Rightarrow> firstOption t ''omitempty'')"

definition typescriptOverride :: "tag list \<Rightarrow> bool" where
  "typescriptOverride tags =
     (case Get tags ''typescript'' of
        None \<Rightarrow> False
      | Some t \<Rightarrow> TagName t \<noteq> '''' \<or> firstOption t ''notnull'')"

definition omitted :: "tag list \<Rightarrow> bool" where
  "omitted tags \<longleftrightarrow>
     (case Get tags ''json'' of None \<Rightarrow> False | Some t \<Rightarrow> TagName t = ''-'') \<or>
     (case Get tags ''typescript'' of None \<Rightarrow> False | Some t \<Rightarrow> TagName t = ''-'')"

text \<open>The entries of the fields that get a line, in the order of the fields.\<close>

definition entryOf :: "package \<Rightarrow> object \<Rightarrow> field \<Rightarrow> (string \<times> bool \<times> TypescriptType) list" where
  "entryOf g obj f =
     (if isExtended f then []
      else (case fieldEntry g obj f of Inr (Some e) \<Rightarrow> [e] | _ \<Rightarrow> []))"

definition renderedEntries ::
  "package \<Rightarrow> object \<Rightarrow> field list \<Rightarrow> (string \<times> bool \<times> TypescriptType) list" where
  "renderedEntries g obj fs = concat (map (entryOf g obj) fs)"


text \<open>
  The values that the loop over the scope adds to \<open>enumConsts[name]\<close> at the name \<open>n\<close>,
  and all of them.
\<close>

definition constValue :: "package \<Rightarrow> string list \<Rightarrow> string \<Rightarrow> string \<Rightarrow> string list" where
  "constValue g ignored name n =
     (case Lookup g n of
        None \<Rightarrow> []
      | Some obj \<Rightarrow>
          (case (obj_type obj, obj_kind obj) of
             (Some (Named s nm u), Const val) \<Rightarrow>
               if obj_name obj \<notin> set ignored \<and> nm = name then [val] else []
           | _ \<Rightarrow> []))"

definition enumValues :: "package \<Rightarrow> string \<Rightarrow> string list" where
  "enumValues g name = concat (map (constValue g (ignoredTypes g) name) (Names g))"

subsection \<open>Example declarations\<close>

text \<open>
  The basic types \<^verbatim>\<open>string\<close>, \<^verbatim>\<open>int\<close> and \<^verbatim>\<open>byte\<close>; a type declared in the package
  \<^verbatim>\<open>codersdk\<close>; a string constant of a named type of that package, whose
  \<^verbatim>\<open>Val().String()\<close> is the quoted string; a field without tags of a struct of that
  package.
\<close>

definition string_t :: gotype where
  "string_t = Basic False False False ''string''"

definition int_t :: gotype where
  "int_t = Basic True False False ''int''"

definition byte_t :: gotype where
  "byte_t = Basic True False True ''byte''"

definition declared :: "string \<Rightarrow> gotype \<Rightarrow> string \<Rightarrow> object" where
  "declared name u file =
     \<lparr>obj_name = name,
      obj_type = Some (Named (''github.com/coder/coder/codersdk.'' @ name) name u),
      obj_kind = TypeName, obj_file = file\<rparr>"

definition enumConst :: "string \<Rightarrow> string \<Rightarrow> string \<Rightarrow> string \<Rightarrow> object" where
  "enumConst name ty val file =
     \<lparr>obj_name = name,
      obj_type = Some (Named (''github.com/coder/coder/codersdk.'' @ ty) ty string_t),
      obj_kind = Const (quote val), obj_file = file\<rparr>"

definition plain :: "string \<Rightarrow> gotype \<Rightarrow> field" where
  "plain name ty = Field name ty False ''codersdk'' '''' (Some [])"

text \<open>
  A package with the comment \<^verbatim>\<open>// @typescript-ignore: Hidden, Other\<close> and the declarations
  \<^verbatim>\<open>type Foo struct { Bar string; Baz *int }\<close>, \<^verbatim>\<open>type Color string\<close> with the constants
  \<^verbatim>\<open>ColorA = "blue"\<close>, \<^verbatim>\<open>ColorB = "red"\<close>, \<^verbatim>\<open>ColorC = "green"\<close>, \<^verbatim>\<open>type ID []byte\<close>,
  \<^verbatim>\<open>type Hidden struct { X string }\<close> and \<^verbatim>\<open>type StringMap map[string]string\<close>; and the
  blocks generated for it.
\<close>

definition examplePackage :: package where
  "examplePackage =
     \<lparr>Syntax = [[[''// @typescript-ignore: Hidden, Other'']]],
      Scope =
        [declared ''Foo'' (Struct ''struct{Bar string; Baz *int}''
            [plain ''Bar'' string_t, plain ''Baz'' (Pointer int_t)]) ''foo.go'',
         declared ''Color'' string_t ''color.go'',
         enumConst ''ColorA'' ''Color'' ''blue'' ''color.go'',
         enumConst ''ColorB'' ''Color'' ''red'' ''color.go'',
         enumConst ''ColorC'' ''Color'' ''green'' ''color.go'',
         declared ''ID'' (Slice byte_t) ''id.go'',
         declared ''Hidden'' (Struct ''struct{X string}'' [plain ''X'' string_t]) ''hidden.go'',
         declared ''StringMap'' (Map string_t string_t) ''maps.go'']\<rparr>"

definition exampleTypes :: TypescriptTypes where
  "exampleTypes =
     \<lparr>Types =
        [(''Foo'', ''// From codersdk/foo.go\<newline>export interface Foo {\<newline>  readonly Bar: string\<newline>  readonly Baz?: number\<newline>}\<newline>''),
         (''StringMap'', ''// From codersdk/maps.go\<newline>export type StringMap = Record<string, string>\<newline>'')],
      Enums =
        [(''Color'', ''// From codersdk/color.go\<newline>export type Color = '' @ quote ''blue'' @
                     '' | '' @ quote ''green'' @ '' | '' @ quote ''red'' @ ''\<newline>'')],
      Generics = []\<rparr>"

text \<open>
  A field of a struct of the package with a json tag value and parsed tags, an embedded
  field without tags, and a reference to a type declared in the package.
\<close>

definition tagged :: "string \<Rightarrow> gotype \<Rightarrow> string \<Rightarrow> tag list \<Rightarrow> field" where
  "tagged name ty json tags = Field name ty False ''codersdk'' json (Some tags)"

definition embedded :: "string \<Rightarrow> gotype \<Rightarrow> field" where
  "embedded name ty = Field name ty True ''codersdk'' '''' (Some [])"

definition local_t :: "string \<Rightarrow> gotype \<Rightarrow> gotype" where
  "local_t name u = Named (''github.com/coder/coder/codersdk.'' @ name) name u"

text \<open>
  The fields of
  \<^verbatim>\<open>type User struct { Base; Name string `json:"name"`; Secret string `json:"-"`;
  Email *string `json:"email" typescript:",notnull"`; Nick *string `json:"nick"` }\<close>,
  with \<^verbatim>\<open>type Base struct { ID string }\<close> in the same package, and the declaration.
\<close>

definition userFields :: "field list" where
  "userFields =
     [embedded ''Base'' (local_t ''Base'' (Struct ''struct{ID string}'' [plain ''ID'' string_t])),
      tagged ''Name'' string_t ''name'' [Tag ''json'' ''name'' []],
      tagged ''Secret'' string_t ''-'' [Tag ''json'' ''-'' []],
      tagged ''Email'' (Pointer string_t) ''email''
        [Tag ''json'' ''email'' [], Tag ''typescript'' '''' [''notnull'']],
      tagged ''Nick'' (Pointer string_t) ''nick'' [Tag ''json'' ''nick'' []]]"

definition userObject :: object where
  "userObject = declared ''User'' (Struct ''struct{...}'' userFields) ''user.go''"



section \<open>Properties\<close>

subsection \<open>The loop over the scope\<close>

lemma Lookup_name: "Lookup g n = Some obj \<Longrightarrow> obj_name obj = n"
  by (auto simp: Lookup_def find_Some_iff)

lemma Lookup_in_Names: "Lookup g n = Some obj \<Longrightarrow> n \<in> set (Names g)"
  by (auto simp: Lookup_def Names_def find_Some_iff)

lemma distinct_Names: "distinct (Names g)"
  by (simp add: Names_def)

lemma mem_keys: "k \<in> set (keys m) \<longleftrightarrow> map_of m k \<noteq> None"
  by (simp add: keys_def map_of_eq_None_iff)

lemma generateTypeName_other:
  "generateTypeName g obj u st = Inr st' \<Longrightarrow> k \<noteq> obj_name obj \<Longrightarrow>
   map_of (structs st') k = map_of (structs st) k \<and>
   map_of (generics st') k = map_of (generics st) k \<and>
   map_of (enums st') k = map_of (enums st) k"
  by (induction g obj u st rule: generateTypeName.induct)
     (auto simp: update_conv' Let_def split: sum.splits)

lemma generateTypeName_consts:
  "generateTypeName g obj u st = Inr st' \<Longrightarrow> enumConsts st' = enumConsts st"
  by (induction g obj u st rule: generateTypeName.induct)
     (auto simp: Let_def split: sum.splits)

lemma generateName_other:
  "generateName g ig n st = Inr st' \<Longrightarrow> k \<noteq> n \<Longrightarrow>
   map_of (structs st') k = map_of (structs st) k \<and>
   map_of (generics st') k = map_of (generics st) k \<and>
   map_of (enums st') k = map_of (enums st) k"
  unfolding generateName_def
  by (auto split: option.splits if_splits obj_kind.splits gotype.splits
           dest!: Lookup_name dest: generateTypeName_other)

lemma generateName_ignored: "n \<in> set ig \<Longrightarrow> generateName g ig n st = Inr st"
  unfolding generateName_def
  by (auto split: option.splits dest!: Lookup_name)

lemma generateName_TypeName:
  assumes "Lookup g n = Some obj" and "obj_kind obj = TypeName"
    and "obj_type obj = Some (Named s nm u)" and "n \<notin> set ig"
  shows "generateName g ig n st = generateTypeName g obj u st"
  using assms Lookup_name[OF assms(1)] by (simp add: generateName_def)

lemma generateNames_ignored:
  "generateNames g ig ns st = Inr st' \<Longrightarrow> k \<in> set ig \<Longrightarrow>
   map_of (structs st') k = map_of (structs st) k \<and>
   map_of (generics st') k = map_of (generics st) k \<and>
   map_of (enums st') k = map_of (enums st) k"
proof (induction ns arbitrary: st)
  case Nil
  then show ?case by simp
next
  case (Cons n ns)
  from Cons.prems(1) obtain st1 where
    s1: "generateName g ig n st = Inr st1" and s2: "generateNames g ig ns st1 = Inr st'"
    by (auto split: sum.splits)
  have "map_of (structs st1) k = map_of (structs st) k \<and>
        map_of (generics st1) k = map_of (generics st) k \<and>
        map_of (enums st1) k = map_of (enums st) k"
  proof (cases "k = n")
    case True
    with Cons.prems(2) s1 show ?thesis by (simp add: generateName_ignored)
  next
    case False
    show ?thesis using generateName_other[OF s1 False] by simp
  qed
  with Cons.IH[OF s2 Cons.prems(2)] show ?case by simp
qed

lemma generateNames_notin:
  "generateNames g ig ns st = Inr st' \<Longrightarrow> k \<notin> set ns \<Longrightarrow>
   map_of (structs st') k = map_of (structs st) k \<and>
   map_of (generics st') k = map_of (generics st) k \<and>
   map_of (enums st') k = map_of (enums st) k"
proof (induction ns arbitrary: st)
  case Nil
  then show ?case by simp
next
  case (Cons n ns)
  from Cons.prems(1) obtain st1 where
    s1: "generateName g ig n st = Inr st1" and s2: "generateNames g ig ns st1 = Inr st'"
    by (auto split: sum.splits)
  from Cons.prems(2) have kn: "k \<noteq> n" and kns: "k \<notin> set ns" by auto
  from generateName_other[OF s1 kn] Cons.IH[OF s2 kns] show ?case by simp
qed

lemma generateNames_append:
  "generateNames g ig (xs @ ys) st = Inr st' \<Longrightarrow>
   \<exists>s1. generateNames g ig xs st = Inr s1 \<and> generateNames g ig ys s1 = Inr st'"
  by (induction xs arbitrary: st) (auto split: sum.splits)

lemma generateNames_at:
  assumes "generateNames g ig ns st = Inr st'" and "distinct ns" and "n \<in> set ns"
  shows "\<exists>s1 s2. generateName g ig n s1 = Inr s2 \<and>
           map_of (structs s1) n = map_of (structs st) n \<and>
           map_of (generics s1) n = map_of (generics st) n \<and>
           map_of (enums s1) n = map_of (enums st) n \<and>
           map_of (structs st') n = map_of (structs s2) n \<and>
           map_of (generics st') n = map_of (generics s2) n \<and>
           map_of (enums st') n = map_of (enums s2) n"
proof -
  from assms(3) obtain xs ys where ns: "ns = xs @ n # ys" by (auto dest: split_list)
  with assms(2) have nx: "n \<notin> set xs" and ny: "n \<notin> set ys" by auto
  from assms(1) ns obtain s1 where
    a: "generateNames g ig xs st = Inr s1" and b: "generateNames g ig (n # ys) s1 = Inr st'"
    by (auto dest: generateNames_append)
  from b obtain s2 where
    c: "generateName g ig n s1 = Inr s2" and d: "generateNames g ig ys s2 = Inr st'"
    by (auto split: sum.splits)
  from generateNames_notin[OF a nx] generateNames_notin[OF d ny] c show ?thesis by blast
qed

lemma map_of_map_keyed:
  "map_of (map (\<lambda>(k, v). (k, f k v)) xs) k = map_option (f k) (map_of xs k)"
  by (induction xs) auto

lemma map_of_enumCodeBlocks:
  "map_of (enumCodeBlocks st) k = map_option (enumBlock (enumConsts st) k) (map_of (enums st) k)"
  unfolding enumCodeBlocks_def by (rule map_of_map_keyed)

lemma generateAll_collected:
  assumes "generateAll g = Inr t"
  shows "\<exists>st. generateNames g (ignoredTypes g) (Names g)
            \<lparr>structs = [], generics = [], enums = [], enumConsts = []\<rparr> = Inr st \<and>
          Types t = structs st \<and> Enums t = enumCodeBlocks st \<and> Generics t = generics st"
  using assms by (auto simp: generateAll_def split: sum.splits)

lemma generateAll_ignored:
  assumes "generateAll g = Inr t" and "k \<in> set (ignoredTypes g)"
  shows "k \<notin> set (keys (Types t)) \<and> k \<notin> set (keys (Enums t)) \<and>
         k \<notin> set (keys (Generics t))"
proof -
  from generateAll_collected[OF assms(1)] obtain st where
    gen: "generateNames g (ignoredTypes g) (Names g)
            \<lparr>structs = [], generics = [], enums = [], enumConsts = []\<rparr> = Inr st"
    and t: "Types t = structs st" "Enums t = enumCodeBlocks st" "Generics t = generics st"
    by blast
  from generateNames_ignored[OF gen assms(2)]
  have "map_of (structs st) k = None" "map_of (generics st) k = None" "map_of (enums st) k = None"
    by simp_all
  then show ?thesis
    by (simp add: t mem_keys map_of_enumCodeBlocks)
qed

lemma generateAll_at:
  assumes "generateAll g = Inr t" and "Lookup g n = Some obj"
  obtains s1 s2 where "generateName g (ignoredTypes g) n s1 = Inr s2"
    and "map_of (structs s1) n = None" and "map_of (generics s1) n = None"
    and "map_of (enums s1) n = None"
    and "map_of (Types t) n = map_of (structs s2) n"
    and "map_of (Generics t) n = map_of (generics s2) n"
    and "map_of (Enums t) n = None \<longleftrightarrow> map_of (enums s2) n = None"
proof -
  from generateAll_collected[OF assms(1)] obtain st where
    gen: "generateNames g (ignoredTypes g) (Names g)
            \<lparr>structs = [], generics = [], enums = [], enumConsts = []\<rparr> = Inr st"
    and t: "Types t = structs st" "Enums t = enumCodeBlocks st" "Generics t = generics st"
    by blast
  from generateNames_at[OF gen distinct_Names Lookup_in_Names[OF assms(2)]]
  obtain s1 s2 where "generateName g (ignoredTypes g) n s1 = Inr s2"
    and "map_of (structs s1) n = None" and "map_of (generics s1) n = None"
    and "map_of (enums s1) n = None"
    and "map_of (structs st) n = map_of (structs s2) n"
    and "map_of (generics st) n = map_of (generics s2) n"
    and "map_of (enums st) n = map_of (enums s2) n"
    by auto
  then show thesis
    by (intro that[of s1 s2]) (simp_all add: t map_of_enumCodeBlocks)
qed

lemma example_generateAll: "generateAll examplePackage = Inr exampleTypes"
  by code_simp

subsection \<open>The ignore directive\<close>






subsection \<open>Declarations of maps and of sequences\<close>




text \<open>
  C5. In a successful run, a declared type whose underlying type is a slice or an array,
  such as \<^verbatim>\<open>type ID []byte\<close>, has no block in any bucket; the Type Mapper maps a slice or
  an array of \<^verbatim>\<open>byte\<close> to \<^verbatim>\<open>string\<close>.
\<close>

theorem sequence_declaration_has_no_block:
  assumes "generateAll g = Inr t" and "Lookup g n = Some obj" and "obj_kind obj = TypeName"
    and "obj_type obj = Some (Named s nm u)" and "u = Slice e \<or> u = Array len e"
  shows "n \<notin> set (keys (Types t)) \<and> n \<notin> set (keys (Enums t)) \<and>
         n \<notin> set (keys (Generics t)) \<and>
         (type_string e = ''byte'' \<longrightarrow> typescriptType g u = Inr (justValue ''string''))"
proof -
  have blocks: "n \<notin> set (keys (Types t)) \<and> n \<notin> set (keys (Enums t)) \<and>
         n \<notin> set (keys (Generics t))"
  proof (cases "n \<in> set (ignoredTypes g)")
    case True
    with assms(1) show ?thesis by (rule generateAll_ignored)
  next
    case False
    obtain s1 s2 where
      step: "generateName g (ignoredTypes g) n s1 = Inr s2"
      and init: "map_of (structs s1) n = None" "map_of (generics s1) n = None"
        "map_of (enums s1) n = None"
      and fin: "map_of (Types t) n = map_of (structs s2) n"
        "map_of (Generics t) n = map_of (generics s2) n"
        "map_of (Enums t) n = None \<longleftrightarrow> map_of (enums s2) n = None"
      by (rule generateAll_at[OF assms(1,2)])
    from step assms(5) have "s2 = s1"
      by (auto simp: generateName_TypeName[OF assms(2,3,4) False])
    with init fin show ?thesis by (simp add: mem_keys)
  qed
  moreover have "type_string e = ''byte'' \<longrightarrow> typescriptType g u = Inr (justValue ''string'')"
    using assms(5) by auto
  ultimately show ?thesis by simp
qed

theorem sequence_declaration_has_no_block_witness:
  "generateAll examplePackage = Inr exampleTypes \<and>
   Lookup examplePackage ''ID'' = Some (declared ''ID'' (Slice byte_t) ''id.go'') \<and>
   ''ID'' \<notin> set (keys (Types exampleTypes)) \<and> ''ID'' \<notin> set (keys (Enums exampleTypes)) \<and>
   ''ID'' \<notin> set (keys (Generics exampleTypes)) \<and>
   typescriptType examplePackage (Slice byte_t) = Inr (justValue ''string'')"
proof -
  have run: "generateAll examplePackage = Inr exampleTypes"
    by (rule example_generateAll)
  have look: "Lookup examplePackage ''ID'' = Some (declared ''ID'' (Slice byte_t) ''id.go'')"
    by code_simp
  have kind: "obj_kind (declared ''ID'' (Slice byte_t) ''id.go'') = TypeName"
    by (simp add: declared_def)
  have ty: "obj_type (declared ''ID'' (Slice byte_t) ''id.go'') =
      Some (Named ''github.com/coder/coder/codersdk.ID'' ''ID'' (Slice byte_t))"
    by (simp add: declared_def)
  have sh: "Slice byte_t = Slice byte_t \<or> Slice byte_t = Array 0 byte_t" by simp
  have str: "type_string byte_t = ''byte''" by (simp add: byte_t_def)
  from sequence_declaration_has_no_block[OF run look kind ty sh] str
  have "''ID'' \<notin> set (keys (Types exampleTypes)) \<and> ''ID'' \<notin> set (keys (Enums exampleTypes)) \<and>
        ''ID'' \<notin> set (keys (Generics exampleTypes)) \<and>
        typescriptType examplePackage (Slice byte_t) = Inr (justValue ''string'')"
    by blast
  with run look show ?thesis by blast
qed

text \<open>
  The package with the one declaration \<^verbatim>\<open>type ID []byte\<close>: the run succeeds with three
  empty buckets, and the document is the banner alone, without
  \<^verbatim>\<open>export type ID = string\<close>.
\<close>

theorem sequence_declaration_counterexample:
  "generateAll \<lparr>Syntax = [], Scope = [declared ''ID'' (Slice byte_t) ''id.go'']\<rparr> =
     Inr \<lparr>Types = [], Enums = [], Generics = []\<rparr> \<and>
   String \<lparr>Types = [], Enums = [], Generics = []\<rparr> =
     ''// Code generated by '' @ [CHR 0x27] @ ''make coder/scripts/apitypings/main.go'' @
     [CHR 0x27] @ ''. DO NOT EDIT.'' \<and>
   \<not> sublist ''export type ID = string'' (String \<lparr>Types = [], Enums = [], Generics = []\<rparr>)"
  by code_simp

subsection \<open>Enums\<close>

lemma consts_of_update:
  "consts_of (AList.update k v m) k' = (if k' = k then v else consts_of m k')"
  by (simp add: consts_of_def update_conv')

lemma generateName_consts:
  "generateName g ig n st = Inr st' \<Longrightarrow>
   consts_of (enumConsts st') name = consts_of (enumConsts st) name @ constValue g ig name n"
  unfolding generateName_def constValue_def
  by (auto simp: consts_of_update
           split: option.splits if_splits obj_kind.splits gotype.splits
           dest: generateTypeName_consts)

lemma generateNames_consts:
  "generateNames g ig ns st = Inr st' \<Longrightarrow>
   consts_of (enumConsts st') name =
     consts_of (enumConsts st) name @ concat (map (constValue g ig name) ns)"
proof (induction ns arbitrary: st)
  case Nil
  then show ?case by simp
next
  case (Cons n ns)
  from Cons.prems obtain st1 where
    s1: "generateName g ig n st = Inr st1" and s2: "generateNames g ig ns st1 = Inr st'"
    by (auto split: sum.splits)
  from generateName_consts[OF s1, of name] Cons.IH[OF s2] show ?case by simp
qed

lemma generateTypeName_enums:
  "generateTypeName g obj u st = Inr st' \<Longrightarrow> map_of (enums st') k = Some v \<Longrightarrow>
   map_of (enums st) k = Some v \<or> (k = obj_name obj \<and> v = obj)"
  by (induction g obj u st rule: generateTypeName.induct)
     (auto simp: update_conv' Let_def split: sum.splits if_splits)

lemma generateName_enums:
  "generateName g ig n st = Inr st' \<Longrightarrow> map_of (enums st') k = Some v \<Longrightarrow>
   map_of (enums st) k = Some v \<or> Lookup g k = Some v"
  unfolding generateName_def
  by (auto split: option.splits if_splits obj_kind.splits gotype.splits
           dest: generateTypeName_enums Lookup_name)

lemma generateNames_enums:
  "generateNames g ig ns st = Inr st' \<Longrightarrow> map_of (enums st') k = Some v \<Longrightarrow>
   map_of (enums st) k = Some v \<or> Lookup g k = Some v"
proof (induction ns arbitrary: st)
  case Nil
  then show ?case by simp
next
  case (Cons n ns)
  from Cons.prems(1) obtain st1 where
    s1: "generateName g ig n st = Inr st1" and s2: "generateNames g ig ns st1 = Inr st'"
    by (auto split: sum.splits)
  from Cons.IH[OF s2 Cons.prems(2)] generateName_enums[OF s1] show ?case by blast
qed

text \<open>
  C6. In a successful run, the block of an enum \<open>name\<close> is the position line of the
  declaration of \<open>name\<close> and \<^verbatim>\<open>export type name = \<close> followed by the values accumulated
  for \<open>name\<close>, sorted in ascending order of their text and joined with \<^verbatim>\<open> | \<close>; any other
  order of the same values sorts to the same list.
\<close>

theorem enum_values_are_sorted:
  assumes "generateAll g = Inr t" and "map_of (Enums t) name = Some block"
  shows "\<exists>v. Lookup g name = Some v \<and>
           block = posLine v @ ''export type '' @ name @ '' = '' @
                   Join (sort (enumValues g name)) '' | '' @ [CHR 0x0A] \<and>
           sorted (sort (enumValues g name)) \<and>
           mset (sort (enumValues g name)) = mset (enumValues g name) \<and>
           (\<forall>vs. mset vs = mset (enumValues g name) \<longrightarrow>
                 sort vs = sort (enumValues g name))"
proof -
  from generateAll_collected[OF assms(1)] obtain st where
    gen: "generateNames g (ignoredTypes g) (Names g)
            \<lparr>structs = [], generics = [], enums = [], enumConsts = []\<rparr> = Inr st"
    and t: "Enums t = enumCodeBlocks st"
    by blast
  from assms(2) obtain v where v: "map_of (enums st) name = Some v"
    and block: "block = enumBlock (enumConsts st) name v"
    by (auto simp: t map_of_enumCodeBlocks)
  from generateNames_enums[OF gen v] have look: "Lookup g name = Some v" by simp
  from generateNames_consts[OF gen, of name]
  have vals: "consts_of (enumConsts st) name = enumValues g name"
    by (simp add: enumValues_def consts_of_def)
  have "\<forall>vs. mset vs = mset (enumValues g name) \<longrightarrow> sort vs = sort (enumValues g name)"
  proof (intro allI impI)
    fix vs :: "string list"
    assume "mset vs = mset (enumValues g name)"
    then have "mset (sort (enumValues g name)) = mset vs" by simp
    then show "sort vs = sort (enumValues g name)"
      by (rule properties_for_sort) simp
  qed
  moreover have "block = posLine v @ ''export type '' @ name @ '' = '' @
                   Join (sort (enumValues g name)) '' | '' @ [CHR 0x0A]"
    unfolding block enumBlock_def vals Let_def ..
  moreover have "sorted (sort (enumValues g name))"
    and "mset (sort (enumValues g name)) = mset (enumValues g name)"
    by simp_all
  ultimately show ?thesis using look by blast
qed

theorem enum_values_are_sorted_witness:
  "generateAll examplePackage = Inr exampleTypes \<and>
   enumValues examplePackage ''Color'' = [quote ''blue'', quote ''red'', quote ''green''] \<and>
   sort (enumValues examplePackage ''Color'') = [quote ''blue'', quote ''green'', quote ''red''] \<and>
   sort [quote ''green'', quote ''red'', quote ''blue''] = sort (enumValues examplePackage ''Color'') \<and>
   map_of (Enums exampleTypes) ''Color'' =
     Some (''// From codersdk/color.go\<newline>export type Color = '' @ quote ''blue'' @
           '' | '' @ quote ''green'' @ '' | '' @ quote ''red'' @ ''\<newline>'') \<and>
   (\<exists>v. Lookup examplePackage ''Color'' = Some v \<and>
      ''// From codersdk/color.go\<newline>export type Color = '' @ quote ''blue'' @
           '' | '' @ quote ''green'' @ '' | '' @ quote ''red'' @ ''\<newline>'' =
      posLine v @ ''export type Color = '' @
      Join (sort (enumValues examplePackage ''Color'')) '' | '' @ [CHR 0x0A])"
proof -
  have run: "generateAll examplePackage = Inr exampleTypes"
    by (rule example_generateAll)
  have blk: "map_of (Enums exampleTypes) ''Color'' =
     Some (''// From codersdk/color.go\<newline>export type Color = '' @ quote ''blue'' @
           '' | '' @ quote ''green'' @ '' | '' @ quote ''red'' @ ''\<newline>'')"
    by (simp add: exampleTypes_def)
  have vals: "enumValues examplePackage ''Color'' = [quote ''blue'', quote ''red'', quote ''green'']"
    by code_simp
  have srt: "sort (enumValues examplePackage ''Color'') =
      [quote ''blue'', quote ''green'', quote ''red'']"
    by code_simp
  have perm: "mset [quote ''green'', quote ''red'', quote ''blue''] =
      mset (enumValues examplePackage ''Color'')"
    unfolding vals by (simp add: add_mset_commute)
  from enum_values_are_sorted[OF run blk]
  have ex: "\<exists>v. Lookup examplePackage ''Color'' = Some v \<and>
      ''// From codersdk/color.go\<newline>export type Color = '' @ quote ''blue'' @
           '' | '' @ quote ''green'' @ '' | '' @ quote ''red'' @ ''\<newline>'' =
      posLine v @ ''export type '' @ ''Color'' @ '' = '' @
      Join (sort (enumValues examplePackage ''Color'')) '' | '' @ [CHR 0x0A]"
    and every: "\<forall>vs. mset vs = mset (enumValues examplePackage ''Color'') \<longrightarrow>
          sort vs = sort (enumValues examplePackage ''Color'')"
    by blast+
  from every perm
  have same: "sort [quote ''green'', quote ''red'', quote ''blue''] =
      sort (enumValues examplePackage ''Color'')"
    by blast
  from ex have "\<exists>v. Lookup examplePackage ''Color'' = Some v \<and>
      ''// From codersdk/color.go\<newline>export type Color = '' @ quote ''blue'' @
           '' | '' @ quote ''green'' @ '' | '' @ quote ''red'' @ ''\<newline>'' =
      posLine v @ ''export type Color = '' @
      Join (sort (enumValues examplePackage ''Color'')) '' | '' @ [CHR 0x0A]"
    by simp
  with same run blk vals srt show ?thesis by blast
qed

subsection \<open>The document\<close>







subsection \<open>Unsupported declarations\<close>

text \<open>
  C7. The package with the one declaration \<^verbatim>\<open>type Events chan int\<close>: the run returns an
  error and no blocks; the message of the error has the shape \<^verbatim>\<open>chan int\<close> and does not
  contain the name \<^verbatim>\<open>Events\<close>.
\<close>

theorem unsupported_declaration_error_without_name:
  "GenerateFromDirectory ''./codersdk''
     (Inr [\<lparr>Syntax = [], Scope = [declared ''Events'' (Chan ''chan int'') ''events.go'']\<rparr>]) =
     Inl (ErrParsePackage ''./codersdk'' (ErrUnsupportedNamedType ''chan int'')) \<and>
   Error (ErrParsePackage ''./codersdk'' (ErrUnsupportedNamedType ''chan int'')) =
     ''parse package '' @ [CHR 0x22] @ ''./codersdk'' @ [CHR 0x22] @
     '': unsupported named type '' @ [CHR 0x22] @ ''chan int'' @ [CHR 0x22] \<and>
   \<not> sublist ''Events''
       (Error (ErrParsePackage ''./codersdk'' (ErrUnsupportedNamedType ''chan int'')))"
  by code_simp

subsection \<open>The errors of the Type Mapper\<close>

lemma typescriptType_error_parts:
  "typescriptType g ty = Inl err \<Longrightarrow> \<exists>p\<in>set (parts ty). unsupported p"
  by (induction g ty arbitrary: err rule: typescriptType.induct)
     (auto simp: Let_def split: if_splits sum.splits)

lemma unsupported_error: "unsupported ty \<Longrightarrow> \<exists>e. typescriptType g ty = Inl e"
  by (cases ty) auto

text \<open>
  C4. The Type Mapper returns an error only if the descriptor, or a type nested in it (the
  key or the value of a map, the element of a slice or an array, the underlying type of a
  named type, the pointee of a pointer), is a non-empty interface, a type parameter whose
  underlying type is not an interface, or a union, a function or a channel type; on a
  descriptor that is itself one of these it does return an error; an anonymous struct is
  not an error.
\<close>

theorem typescriptType_errors:
  "(typescriptType g ty = Inl err \<longrightarrow> (\<exists>p\<in>set (parts ty). unsupported p)) \<and>
   (unsupported ty \<longrightarrow> (\<exists>e. typescriptType g ty = Inl e)) \<and>
   (\<exists>r. typescriptType g (Struct s fs) = Inr r)"
  using typescriptType_error_parts[of g ty err] unsupported_error[of ty g] by auto

theorem typescriptType_errors_witness:
  "typescriptType examplePackage
     (Map string_t (Slice (Interface ''interface{String() string}'' False []))) =
     Inl (ErrMapKey (ErrArray ErrOnlyEmptyInterface)) \<and>
   (\<exists>p\<in>set (parts (Map string_t (Slice (Interface ''interface{String() string}'' False [])))).
      unsupported p) \<and>
   unsupported (Interface ''interface{String() string}'' False []) \<and>
   (\<exists>e. typescriptType examplePackage (Interface ''interface{String() string}'' False []) =
      Inl e)"
proof -
  have e: "typescriptType examplePackage
     (Map string_t (Slice (Interface ''interface{String() string}'' False []))) =
     Inl (ErrMapKey (ErrArray ErrOnlyEmptyInterface))"
    by (simp add: string_t_def justValue_def)
  have u: "unsupported (Interface ''interface{String() string}'' False [])" by simp
  from typescriptType_errors
         [of examplePackage "Map string_t (Slice (Interface ''interface{String() string}'' False []))"
             "ErrMapKey (ErrArray ErrOnlyEmptyInterface)"] e
  have p: "\<exists>p\<in>set (parts (Map string_t (Slice (Interface ''interface{String() string}'' False [])))).
      unsupported p"
    by blast
  from typescriptType_errors
         [of examplePackage "Interface ''interface{String() string}'' False []"] u
  have "\<exists>e. typescriptType examplePackage (Interface ''interface{String() string}'' False []) =
      Inl e"
    by blast
  with e u p show ?thesis by blast
qed

text \<open>
  A pointer to a non-empty interface is an error, and an anonymous struct is mapped to
  \<^verbatim>\<open>any\<close>.
\<close>

theorem typescriptType_counterexample:
  "typescriptType \<lparr>Syntax = [], Scope = []\<rparr>
     (Pointer (Interface ''interface{String() string}'' False [])) =
     Inl (ErrPointer ErrOnlyEmptyInterface) \<and>
   typescriptType \<lparr>Syntax = [], Scope = []\<rparr>
     (Struct ''struct{Field string}'' [plain ''Field'' string_t]) =
     Inr \<lparr>GenericMapping = '''', ValueType = ''any'',
          AboveTypeLine = ''  // Embedded anonymous struct, please fix by naming it\<newline>  // eslint-disable-next-line @typescript-eslint/no-explicit-any'',
          Optional = False\<rparr>"
  by code_simp

subsection \<open>The fields of a struct\<close>

lemma buildFields_foldl:
  "buildFields g obj fs sg = Inr sg' \<Longrightarrow>
   sg' = foldl (\<lambda>sg e. addField e sg) sg (renderedEntries g obj fs)"
proof (induction fs arbitrary: sg)
  case Nil
  then show ?case by (simp add: renderedEntries_def)
next
  case (Cons f fs)
  show ?case
  proof (cases "isExtended f")
    case True
    with Cons show ?thesis by (simp add: renderedEntries_def entryOf_def)
  next
    case False
    with Cons.prems obtain r where r: "fieldEntry g obj f = Inr r"
      by (auto split: sum.splits)
    show ?thesis
    proof (cases r)
      case None
      with Cons False r show ?thesis by (simp add: renderedEntries_def entryOf_def)
    next
      case (Some e)
      with Cons.prems False r have "buildFields g obj fs (addField e sg) = Inr sg'" by simp
      from Cons.IH[OF this] Some False r show ?thesis
        by (simp add: renderedEntries_def entryOf_def)
    qed
  qed
qed

lemma buildFields_no_error:
  "buildFields g obj fs sg = Inr sg' \<Longrightarrow> f \<in> set fs \<Longrightarrow> \<not> isExtended f \<Longrightarrow>
   \<exists>r. fieldEntry g obj f = Inr r"
proof (induction fs arbitrary: sg)
  case Nil
  then show ?case by simp
next
  case (Cons a fs)
  show ?case
  proof (cases "f = a")
    case True
    with Cons.prems(1,3) show ?thesis by (auto split: sum.splits)
  next
    case False
    with Cons.prems(2) have mem: "f \<in> set fs" by simp
    from Cons.prems(1) obtain sg1 where "buildFields g obj fs sg1 = Inr sg'"
      by (auto split: sum.splits option.splits if_splits)
    from Cons.IH[OF this mem Cons.prems(3)] show ?thesis .
  qed
qed

lemma addField_state:
  "Fields (fst (addField e sg)) = Fields (fst sg) @ [fieldLine e]"
  "AboveLine (fst (addField e sg)) =
     (if AboveTypeLine (snd (snd e)) \<noteq> '''' then AboveTypeLine (snd (snd e))
      else AboveLine (fst sg))"
  "Extends (fst (addField e sg)) = Extends (fst sg)"
  "PosLine (fst (addField e sg)) = PosLine (fst sg)"
  "Name (fst (addField e sg)) = Name (fst sg)"
  by (auto simp: addField_def Let_def split: prod.splits)

lemma foldl_addField_Fields:
  "Fields (fst (foldl (\<lambda>sg e. addField e sg) sg es)) = Fields (fst sg) @ map fieldLine es"
  by (induction es arbitrary: sg) (simp_all add: addField_state)

lemma foldl_addField_fixed:
  "Extends (fst (foldl (\<lambda>sg e. addField e sg) sg es)) = Extends (fst sg) \<and>
   PosLine (fst (foldl (\<lambda>sg e. addField e sg) sg es)) = PosLine (fst sg) \<and>
   Name (fst (foldl (\<lambda>sg e. addField e sg) sg es)) = Name (fst sg)"
  by (induction es arbitrary: sg) (simp_all add: addField_state)


lemma fieldEntry_None:
  "fieldEntry g obj f = Inr r \<Longrightarrow> fTags f = Some tags \<Longrightarrow> r = None \<longleftrightarrow> omitted tags"
  by (auto simp: fieldEntry_def omitted_def Let_def
           split: option.splits sum.splits if_splits)

lemma fieldEntry_tags: "fieldEntry g obj f = Inr r \<Longrightarrow> \<exists>tags. fTags f = Some tags"
  by (auto simp: fieldEntry_def split: option.splits)

lemma fieldEntry_Some:
  assumes "fieldEntry g obj f = Inr (Some e)" and "fTags f = Some tags"
  shows "\<exists>m. typescriptType g (fType f) = Inr m \<and>
           fst (snd e) = jsonOmitempty tags \<and>
           Optional (snd (snd e)) = (Optional m \<and> \<not> typescriptOverride tags)"
  using assms
  by (auto simp: fieldEntry_def jsonOmitempty_def typescriptOverride_def Let_def justValue_def
           split: option.splits sum.splits if_splits)

lemma typescriptType_Pointer: "typescriptType g (Pointer p) = Inr m \<Longrightarrow> Optional m"
  by (auto split: sum.splits)


text \<open>
  C9. In the block of a struct, the extends clause lists, in the order of the fields, the
  names of the fields that are embedded, have an empty json tag value and are declared in
  a package named \<^verbatim>\<open>codersdk\<close>; these fields get no line. A field whose json or
  typescript tag has the name \<^verbatim>\<open>-\<close> gets no line either. Every other field gets exactly
  one line, and the lines are in the order of the fields.
\<close>

theorem struct_block_extends_and_fields:
  assumes "buildStruct g obj fs = Inr block"
  shows "\<exists>state. block = structTemplate state \<and>
           PosLine state = posLine obj \<and> Name state = obj_name obj \<and>
           Extends state = Join (map fName (filter isExtended fs)) '', '' \<and>
           Fields state = map fieldLine (concat (map (entryOf g obj) fs)) \<and>
           (\<forall>f\<in>set fs.
              (isExtended f \<or> (\<exists>tags. fTags f = Some tags \<and> omitted tags) \<longrightarrow>
                 entryOf g obj f = []) \<and>
              (\<not> isExtended f \<and> \<not> (\<exists>tags. fTags f = Some tags \<and> omitted tags) \<longrightarrow>
                 (\<exists>e. fieldEntry g obj f = Inr (Some e) \<and> entryOf g obj f = [e])))"
proof -
  from assms obtain state gu where
    run: "buildFields g obj fs (initialState obj fs, Map.empty) = Inr (state, gu)"
    and block: "block = structTemplate state"
    by (auto simp: buildStruct_def split: sum.splits)
  from buildFields_foldl[OF run]
  have st: "state = fst (foldl (\<lambda>sg e. addField e sg) (initialState obj fs, Map.empty)
                      (renderedEntries g obj fs))"
    by (metis fst_conv)
  have fixed: "PosLine state = posLine obj" "Name state = obj_name obj"
    "Extends state = Join (map fName (filter isExtended fs)) '', ''"
    unfolding st by (simp_all add: foldl_addField_fixed initialState_def)
  have lines: "Fields state = map fieldLine (concat (map (entryOf g obj) fs))"
    unfolding st by (simp add: foldl_addField_Fields initialState_def renderedEntries_def)
  have each: "(isExtended f \<or> (\<exists>tags. fTags f = Some tags \<and> omitted tags) \<longrightarrow>
                 entryOf g obj f = []) \<and>
              (\<not> isExtended f \<and> \<not> (\<exists>tags. fTags f = Some tags \<and> omitted tags) \<longrightarrow>
                 (\<exists>e. fieldEntry g obj f = Inr (Some e) \<and> entryOf g obj f = [e]))"
    if f: "f \<in> set fs" for f
  proof (cases "isExtended f")
    case True
    then show ?thesis by (simp add: entryOf_def)
  next
    case False
    from buildFields_no_error[OF run f False] obtain r where r: "fieldEntry g obj f = Inr r"
      by blast
    from fieldEntry_tags[OF r] obtain tags where tags: "fTags f = Some tags" by blast
    from fieldEntry_None[OF r tags] have none: "r = None \<longleftrightarrow> omitted tags" .
    show ?thesis
    proof (cases r)
      case None
      with none r tags False show ?thesis by (simp add: entryOf_def)
    next
      case (Some e)
      with r False have "fieldEntry g obj f = Inr (Some e) \<and> entryOf g obj f = [e]"
        by (simp add: entryOf_def)
      moreover have "\<not> (\<exists>t. fTags f = Some t \<and> omitted t)"
        using tags none Some by simp
      ultimately show ?thesis using False by blast
    qed
  qed
  from block fixed lines each show ?thesis by blast
qed

theorem struct_block_extends_and_fields_witness:
  "buildStruct examplePackage userObject userFields =
     Inr ''// From codersdk/user.go\<newline>export interface User extends Base {\<newline>  readonly name: string\<newline>  readonly email: string\<newline>  readonly nick?: string\<newline>}\<newline>'' \<and>
   Join (map fName (filter isExtended userFields)) '', '' = ''Base'' \<and>
   map fieldLine (concat (map (entryOf examplePackage userObject) userFields)) =
     [''  readonly name: string'', ''  readonly email: string'', ''  readonly nick?: string''] \<and>
   (\<exists>state. ''// From codersdk/user.go\<newline>export interface User extends Base {\<newline>  readonly name: string\<newline>  readonly email: string\<newline>  readonly nick?: string\<newline>}\<newline>'' =
        structTemplate state \<and>
      Extends state = ''Base'' \<and>
      Fields state =
        [''  readonly name: string'', ''  readonly email: string'', ''  readonly nick?: string''])"
proof -
  have run: "buildStruct examplePackage userObject userFields =
     Inr ''// From codersdk/user.go\<newline>export interface User extends Base {\<newline>  readonly name: string\<newline>  readonly email: string\<newline>  readonly nick?: string\<newline>}\<newline>''"
    by code_simp
  have ext: "Join (map fName (filter isExtended userFields)) '', '' = ''Base''"
    by code_simp
  have lines: "map fieldLine (concat (map (entryOf examplePackage userObject) userFields)) =
     [''  readonly name: string'', ''  readonly email: string'', ''  readonly nick?: string'']"
    by code_simp
  from struct_block_extends_and_fields[OF run]
  have "\<exists>state. ''// From codersdk/user.go\<newline>export interface User extends Base {\<newline>  readonly name: string\<newline>  readonly email: string\<newline>  readonly nick?: string\<newline>}\<newline>'' =
        structTemplate state \<and>
      Extends state = Join (map fName (filter isExtended userFields)) '', '' \<and>
      Fields state = map fieldLine (concat (map (entryOf examplePackage userObject) userFields))"
    by blast
  then have "\<exists>state. ''// From codersdk/user.go\<newline>export interface User extends Base {\<newline>  readonly name: string\<newline>  readonly email: string\<newline>  readonly nick?: string\<newline>}\<newline>'' =
        structTemplate state \<and>
      Extends state = ''Base'' \<and>
      Fields state =
        [''  readonly name: string'', ''  readonly email: string'', ''  readonly nick?: string'']"
    unfolding ext lines .
  with run ext lines show ?thesis by blast
qed

text \<open>
  The field \<^verbatim>\<open>Secret\<close> of \<^verbatim>\<open>User\<close> is not embedded and is in no line of the block.
\<close>

theorem struct_block_omitted_field_counterexample:
  "\<not> fEmbedded (tagged ''Secret'' string_t ''-'' [Tag ''json'' ''-'' []]) \<and>
   tagged ''Secret'' string_t ''-'' [Tag ''json'' ''-'' []] \<in> set userFields \<and>
   buildStruct examplePackage userObject userFields =
     Inr ''// From codersdk/user.go\<newline>export interface User extends Base {\<newline>  readonly name: string\<newline>  readonly email: string\<newline>  readonly nick?: string\<newline>}\<newline>'' \<and>
   \<not> sublist ''Secret'' ''// From codersdk/user.go\<newline>export interface User extends Base {\<newline>  readonly name: string\<newline>  readonly email: string\<newline>  readonly nick?: string\<newline>}\<newline>''"
  by code_simp


text \<open>
  C1. A field that gets a line is rendered optional, with \<^verbatim>\<open>?\<close> after its name, if and
  only if the first option of its json tag is \<^verbatim>\<open>omitempty\<close>, or the Type Mapper marks
  the type of the field optional and the typescript tag of the field gives neither a type
  name nor \<^verbatim>\<open>notnull\<close> as its first option. The Type Mapper marks every pointer type
  optional.
\<close>

theorem field_optional_iff:
  assumes "fieldEntry g obj f = Inr (Some e)" and "fTags f = Some tags"
  shows "\<exists>m. typescriptType g (fType f) = Inr m \<and>
           fieldLine e =
             indent @ ''readonly '' @ fst e @
             (if jsonOmitempty tags \<or> (Optional m \<and> \<not> typescriptOverride tags)
              then ''?'' else '''') @
             '': '' @
             (if GenericMapping (snd (snd e)) \<noteq> '''' then GenericMapping (snd (snd e))
              else ValueType (snd (snd e))) \<and>
           ((\<exists>p. fType f = Pointer p) \<longrightarrow> Optional m)"
proof -
  from fieldEntry_Some[OF assms] obtain m where
    m: "typescriptType g (fType f) = Inr m"
    and jo: "fst (snd e) = jsonOmitempty tags"
    and opt: "Optional (snd (snd e)) = (Optional m \<and> \<not> typescriptOverride tags)"
    by blast
  have line: "fieldLine e =
             indent @ ''readonly '' @ fst e @
             (if jsonOmitempty tags \<or> (Optional m \<and> \<not> typescriptOverride tags)
              then ''?'' else '''') @
             '': '' @
             (if GenericMapping (snd (snd e)) \<noteq> '''' then GenericMapping (snd (snd e))
              else ValueType (snd (snd e)))"
    using jo opt by (cases e) (simp add: fieldLine_def Let_def)
  have "(\<exists>p. fType f = Pointer p) \<longrightarrow> Optional m"
    using m typescriptType_Pointer by metis
  with m line show ?thesis by blast
qed

theorem field_optional_iff_witness:
  "fieldEntry examplePackage userObject
     (tagged ''Nick'' (Pointer string_t) ''nick'' [Tag ''json'' ''nick'' []]) =
     Inr (Some (''nick'', False, (justValue ''string'')\<lparr>Optional := True\<rparr>)) \<and>
   \<not> jsonOmitempty [Tag ''json'' ''nick'' []] \<and>
   \<not> typescriptOverride [Tag ''json'' ''nick'' []] \<and>
   fieldLine (''nick'', False, (justValue ''string'')\<lparr>Optional := True\<rparr>) =
     ''  readonly nick?: string'' \<and>
   (\<exists>m. typescriptType examplePackage
          (fType (tagged ''Nick'' (Pointer string_t) ''nick'' [Tag ''json'' ''nick'' []])) =
          Inr m \<and> Optional m)"
proof -
  have entry: "fieldEntry examplePackage userObject
     (tagged ''Nick'' (Pointer string_t) ''nick'' [Tag ''json'' ''nick'' []]) =
     Inr (Some (''nick'', False, (justValue ''string'')\<lparr>Optional := True\<rparr>))"
    by code_simp
  have tags: "fTags (tagged ''Nick'' (Pointer string_t) ''nick'' [Tag ''json'' ''nick'' []]) =
     Some [Tag ''json'' ''nick'' []]"
    by (simp add: tagged_def)
  have ptr: "\<exists>p. fType (tagged ''Nick'' (Pointer string_t) ''nick'' [Tag ''json'' ''nick'' []]) =
     Pointer p"
    by (simp add: tagged_def)
  have omit: "\<not> jsonOmitempty [Tag ''json'' ''nick'' []]" by code_simp
  have over: "\<not> typescriptOverride [Tag ''json'' ''nick'' []]" by code_simp
  have line: "fieldLine (''nick'', False, (justValue ''string'')\<lparr>Optional := True\<rparr>) =
     ''  readonly nick?: string''"
    by code_simp
  from field_optional_iff[OF entry tags] ptr
  have "\<exists>m. typescriptType examplePackage
          (fType (tagged ''Nick'' (Pointer string_t) ''nick'' [Tag ''json'' ''nick'' []])) =
          Inr m \<and> Optional m"
    by blast
  with entry omit over line show ?thesis by blast
qed

text \<open>
  The field \<^verbatim>\<open>Email\<close> of \<^verbatim>\<open>User\<close> has a pointer type and the tag
  \<^verbatim>\<open>typescript:",notnull"\<close>: its line has no \<^verbatim>\<open>?\<close>.
\<close>

theorem pointer_field_notnull_counterexample:
  "fType (tagged ''Email'' (Pointer string_t) ''email''
            [Tag ''json'' ''email'' [], Tag ''typescript'' '''' [''notnull'']]) =
     Pointer string_t \<and>
   fieldEntry examplePackage userObject
     (tagged ''Email'' (Pointer string_t) ''email''
        [Tag ''json'' ''email'' [], Tag ''typescript'' '''' [''notnull'']]) =
     Inr (Some (''email'', False, justValue ''string'')) \<and>
   fieldLine (''email'', False, justValue ''string'') = ''  readonly email: string'' \<and>
   buildStruct examplePackage userObject userFields =
     Inr ''// From codersdk/user.go\<newline>export interface User extends Base {\<newline>  readonly name: string\<newline>  readonly email: string\<newline>  readonly nick?: string\<newline>}\<newline>''"
  by code_simp

subsection \<open>Annotations\<close>







end
